theory Spec2Isabelle
  imports Complex_Main
begin

section \<open>Configuration (config.py)\<close>

text \<open>
  Python's \<open>datetime.time\<close> is a tuple of hour, minute, second and microsecond, and naive
  times are ordered lexicographically on these four fields. \<open>now_ist.time()\<close> is such a
  naive time; \<open>now_ist.date()\<close> is a year, a month and a day.
\<close>

record pytime =
  hour :: nat
  minute :: nat
  second :: nat
  microsecond :: nat

record pydate =
  year :: nat
  month :: nat
  day :: nat

record datetime =
  date_part :: pydate
  time_part :: pytime

definition time :: "nat \<Rightarrow> nat \<Rightarrow> pytime" where
  "time h m = \<lparr>hour = h, minute = m, second = 0, microsecond = 0\<rparr>"

definition time_lt :: "pytime \<Rightarrow> pytime \<Rightarrow> bool" where
  "time_lt a b =
     (hour a < hour b \<or> (hour a = hour b \<and>
       (minute a < minute b \<or> (minute a = minute b \<and>
         (second a < second b \<or> (second a = second b \<and> microsecond a < microsecond b))))))"

definition time_le :: "pytime \<Rightarrow> pytime \<Rightarrow> bool" where
  "time_le a b = (time_lt a b \<or> a = b)"

definition MARKET_OPEN :: pytime where "MARKET_OPEN = time 9 15"
definition STUDY_END :: pytime where "STUDY_END = time 10 0"
definition SCALP_1_START :: pytime where "SCALP_1_START = time 10 0"
definition SCALP_1_END :: pytime where "SCALP_1_END = time 11 30"
definition NO_NEW_1_START :: pytime where "NO_NEW_1_START = SCALP_1_END"
definition NO_NEW_1_END :: pytime where "NO_NEW_1_END = time 13 30"
definition SCALP_2_START :: pytime where "SCALP_2_START = time 13 30"
definition SCALP_2_END :: pytime where "SCALP_2_END = time 14 45"
definition NO_NEW_2_START :: pytime where "NO_NEW_2_START = SCALP_2_END"
definition MARKET_CLOSE :: pytime where "MARKET_CLOSE = time 15 30"

definition PREDICTION_TIME_BUCKET_MINUTES :: nat where "PREDICTION_TIME_BUCKET_MINUTES = 15"
definition SCALP_VALID_MINUTES :: nat where "SCALP_VALID_MINUTES = 15"
definition NIFTY_SYMBOL_YF :: string where "NIFTY_SYMBOL_YF = ''^NSEI''"

section \<open>Formatting of dates and times\<close>

text \<open>
  The pieces of \<open>strftime\<close> that the program uses, for the C locale:
  zero-padded decimal fields, the abbreviated month name, the 12-hour clock.
\<close>

definition digit :: "nat \<Rightarrow> char" where
  "digit n = char_of (48 + n mod 10)"

fun digits_fuel :: "nat \<Rightarrow> nat \<Rightarrow> string" where
  "digits_fuel 0 n = []"
| "digits_fuel (Suc k) n = (if n < 10 then [digit n] else digits_fuel k (n div 10) @ [digit n])"

definition str_nat :: "nat \<Rightarrow> string" where
  "str_nat n = digits_fuel (Suc n) n"

definition zfill :: "nat \<Rightarrow> string \<Rightarrow> string" where
  "zfill w s = replicate (w - length s) (CHR ''0'') @ s"

fun month_abbr :: "nat \<Rightarrow> string" where
  "month_abbr m =
     (if m = 1 then ''Jan'' else if m = 2 then ''Feb'' else if m = 3 then ''Mar''
      else if m = 4 then ''Apr'' else if m = 5 then ''May'' else if m = 6 then ''Jun''
      else if m = 7 then ''Jul'' else if m = 8 then ''Aug'' else if m = 9 then ''Sep''
      else if m = 10 then ''Oct'' else if m = 11 then ''Nov'' else if m = 12 then ''Dec''
      else '''')"

definition strftime_d_b_Y :: "datetime \<Rightarrow> string" where
  \<comment> \<open>\<open>strftime("%d-%b-%Y")\<close>\<close>
  "strftime_d_b_Y dt =
     (let d = date_part dt
      in zfill 2 (str_nat (day d)) @ ''-'' @ month_abbr (month d) @ ''-'' @ str_nat (year d))"

definition strftime_I_M_p :: "datetime \<Rightarrow> string" where
  \<comment> \<open>\<open>strftime("%I:%M %p")\<close>\<close>
  "strftime_I_M_p dt =
     (let t = time_part dt;
          h12 = (if hour t mod 12 = 0 then 12 else hour t mod 12)
      in zfill 2 (str_nat h12) @ '':'' @ zfill 2 (str_nat (minute t)) @ '' ''
         @ (if hour t < 12 then ''AM'' else ''PM''))"

definition strftime_Ymd :: "datetime \<Rightarrow> string" where
  \<comment> \<open>\<open>strftime('%Y%m%d')\<close>\<close>
  "strftime_Ymd dt =
     (let d = date_part dt
      in str_nat (year d) @ zfill 2 (str_nat (month d)) @ zfill 2 (str_nat (day d)))"

definition strftime_H_M :: "datetime \<Rightarrow> string" where
  \<comment> \<open>\<open>strftime("%H:%M")\<close>\<close>
  "strftime_H_M dt =
     (let t = time_part dt
      in zfill 2 (str_nat (hour t)) @ '':'' @ zfill 2 (str_nat (minute t)))"

section \<open>Session clock (prediction_engine.py, get_time_status)\<close>

record time_status =
  code :: string
  color :: string
  message :: string
  window_start :: "pytime option"
  window_end :: "pytime option"

definition get_time_status :: "datetime \<Rightarrow> time_status" where
  "get_time_status now_ist =
     (let t = time_part now_ist;
          date_str = strftime_d_b_Y now_ist;
          time_str = strftime_I_M_p now_ist
      in
      if time_lt t MARKET_OPEN \<or> time_lt MARKET_CLOSE t then
        \<lparr>code = ''CLOSED'', color = ''#b22222'',
         message = ''Market is currently closed on '' @ date_str @ ''. Current time is ''
                   @ time_str @ '' (Indian Standard Time).'',
         window_start = None, window_end = None\<rparr>
      else if time_le MARKET_OPEN t \<and> time_lt t STUDY_END then
        \<lparr>code = ''STUDY'', color = ''#b22222'',
         message = ''Study-only period for today ('' @ date_str @ ''). ''
                   @ ''From 9:15 AM to 10:00 AM you should only observe the market and avoid opening new scalping trades.'',
         window_start = None, window_end = None\<rparr>
      else if time_le SCALP_1_START t \<and> time_lt t SCALP_1_END then
        \<lparr>code = ''SCALP_1'', color = ''#228b22'',
         message = ''You are in Prime Scalping Window 1 on '' @ date_str @ ''. ''
                   @ ''Current time is '' @ time_str @ ''. This window runs from 10:00 AM to 11:30 AM. ''
                   @ ''Short-term scalping opportunities are allowed during this period when conditions are favourable.'',
         window_start = None, window_end = None\<rparr>
      else if time_le NO_NEW_1_START t \<and> time_lt t NO_NEW_1_END then
        \<lparr>code = ''NO_NEW_1'', color = ''#ff8c00'',
         message = ''You are in the midday period on '' @ date_str @ '' (approximately 11:30 AM to 1:30 PM). ''
                   @ ''This part of the session often has lower quality moves. ''
                   @ ''It is generally better to avoid starting fresh scalping trades and instead manage or monitor existing positions.'',
         window_start = None, window_end = None\<rparr>
      else if time_le SCALP_2_START t \<and> time_lt t SCALP_2_END then
        \<lparr>code = ''SCALP_2'', color = ''#228b22'',
         message = ''You are in Prime Scalping Window 2 on '' @ date_str @ ''. ''
                   @ ''Current time is '' @ time_str @ ''. This window runs from 1:30 PM to 2:45 PM. ''
                   @ ''This is another good period for short-term scalping if the market and stock conditions support it.'',
         window_start = None, window_end = None\<rparr>
      else if time_le NO_NEW_2_START t \<and> time_le t MARKET_CLOSE then
        \<lparr>code = ''NO_NEW_2'', color = ''#ff8c00'',
         message = ''You are in the final wind-down window for today ('' @ date_str @ ''), between approximately 2:45 PM and 3:30 PM. ''
                   @ ''This period is best used for managing and exiting existing trades, not for opening new scalping positions.'',
         window_start = None, window_end = None\<rparr>
      else
        \<lparr>code = ''OPEN'', color = ''#1e90ff'',
         message = ''Market is open on '' @ date_str @ ''. Current time is '' @ time_str @ ''.'',
         window_start = None, window_end = None\<rparr>)"

definition at_time :: "pydate \<Rightarrow> pytime \<Rightarrow> datetime" where
  "at_time d t = \<lparr>date_part = d, time_part = t\<rparr>"

section \<open>Sentiment and news risk (sentiment_engine.py)\<close>

definition POSITIVE_WORDS :: "string list" where
  "POSITIVE_WORDS =
     [''upgrade'', ''upgrades'', ''beat'', ''record'', ''surge'', ''rally'', ''profit'',
      ''profits'', ''growth'', ''positive'', ''strong'', ''beat estimates'']"

definition NEGATIVE_WORDS :: "string list" where
  "NEGATIVE_WORDS =
     [''downgrade'', ''downgrades'', ''miss'', ''missed'', ''loss'', ''losses'', ''scam'',
      ''fraud'', ''fall'', ''drop'', ''negative'', ''penalty'', ''fine'', ''probe'',
      ''investigation'']"

definition EVENT_KEYWORDS :: "string list" where
  "EVENT_KEYWORDS =
     [''results'', ''earnings'', ''q1'', ''q2'', ''q3'', ''q4'', ''quarter'', ''dividend'',
      ''bonus'', ''split'', ''merger'', ''acquisition'', ''rbi'', ''policy'', ''court'',
      ''hearing'', ''order'', ''judgment'', ''verdict'']"

definition BREAKING_KEYWORDS :: "string list" where
  "BREAKING_KEYWORDS = [''breaking'', ''just in'', ''live'', ''alert'', ''urgent'', ''flash'']"

text \<open>
  A headline is a dictionary; the classifiers read its keys \<open>title\<close> and \<open>description\<close>
  with \<open>h.get(key, "") or ""\<close>, so a missing key and the value \<open>None\<close> both count as the
  empty string: \<open>None\<close> below stands for either.
\<close>

record headline =
  title :: "string option"
  description :: "string option"

definition or_empty :: "string option \<Rightarrow> string" where
  "or_empty v = (case v of None \<Rightarrow> [] | Some s \<Rightarrow> s)"

definition lower_char :: "char \<Rightarrow> char" where
  \<comment> \<open>\<open>str.lower()\<close> on ASCII text\<close>
  "lower_char c =
     (let n = (of_char c :: nat) in if 65 \<le> n \<and> n \<le> 90 then char_of (n + 32) else c)"

definition lower :: "string \<Rightarrow> string" where
  "lower s = map lower_char s"

fun starts_with :: "string \<Rightarrow> string \<Rightarrow> bool" where
  "starts_with [] s = True"
| "starts_with (w # ws) [] = False"
| "starts_with (w # ws) (c # cs) = (w = c \<and> starts_with ws cs)"

fun contains :: "string \<Rightarrow> string \<Rightarrow> bool" where
  \<comment> \<open>\<open>w in s\<close> on strings\<close>
  "contains w [] = (w = [])"
| "contains w (c # cs) = (starts_with w (c # cs) \<or> contains w cs)"

definition headline_text :: "headline \<Rightarrow> string" where
  "headline_text h = or_empty (title h) @ '' '' @ or_empty (description h)"

definition headline_score :: "headline \<Rightarrow> int" where
  "headline_score h =
     (let text_lower = lower (headline_text h);
          score = fold (\<lambda>w score. if contains w text_lower then score + 1 else score)
                       POSITIVE_WORDS 0
      in fold (\<lambda>w score. if contains w text_lower then score - 1 else score)
              NEGATIVE_WORDS score)"

fun join :: "string \<Rightarrow> string list \<Rightarrow> string" where
  "join sep [] = []"
| "join sep [x] = x"
| "join sep (x # y # ys) = x @ sep @ join sep (y # ys)"

definition simple_sentiment_from_headlines ::
  "headline list \<Rightarrow> real \<times> string \<times> string" where
  "simple_sentiment_from_headlines headlines =
     (if headlines = [] then (0.0, ''NEUTRAL'', ''No recent news found for this stock.'')
      else
        let scores = map headline_score headlines
        in if scores = [] then
             (0.0, ''NEUTRAL'', ''News headlines were not clearly positive or negative.'')
           else
             let avg_raw = real_of_int (sum_list scores) / real (length scores);
                 max_abs = max 1 (Max (set (map abs scores)));
                 score_norm = avg_raw / real_of_int max_abs;
                 label = (if score_norm > 0.2 then ''POSITIVE''
                          else if score_norm < - 0.2 then ''NEGATIVE''
                          else ''NEUTRAL'');
                 raw_titles = map (\<lambda>h. or_empty (title h))
                                  (filter (\<lambda>h. or_empty (title h) \<noteq> []) headlines);
                 summary = (if raw_titles \<noteq> [] then join ''; '' (take 2 raw_titles)
                            else ''News is available, but not strongly directional.'')
             in (score_norm, label, summary))"

definition determine_news_risk :: "headline list \<Rightarrow> string" where
  "determine_news_risk headlines =
     (if headlines = [] then ''NONE''
      else
        let has_event = list_ex (\<lambda>h. list_ex (\<lambda>w. contains w (lower (headline_text h)))
                                           EVENT_KEYWORDS) headlines;
            has_breaking = list_ex (\<lambda>h. list_ex (\<lambda>w. contains w (lower (headline_text h)))
                                              BREAKING_KEYWORDS) headlines
        in if has_breaking then ''BREAKING''
           else if has_event then ''EVENT_RISK''
           else ''NONE'')"

section \<open>Series arithmetic (the pandas and numpy operations the engine calls)\<close>

text \<open>
  An intraday frame is a list of bars, each with its timestamp (the frame's index), its
  closing price and its volume. Prices and volumes are modelled as exact reals, and the
  arithmetic on them is exact; the two special values a quotient of doubles can take, an
  infinity and NaN, are written out where a division by a zero close produces them.
\<close>

record bar =
  timestamp :: nat
  Close :: real
  Volume :: real

type_synonym frame = "bar list"

definition sort_index :: "frame \<Rightarrow> frame" where
  "sort_index df = sort_key timestamp df"

definition iloc_last :: "nat \<Rightarrow> 'a list \<Rightarrow> 'a list" where
  \<comment> \<open>\<open>.iloc[-n:]\<close>\<close>
  "iloc_last n xs = drop (length xs - n) xs"

definition mean :: "real list \<Rightarrow> real" where
  "mean xs = sum_list xs / real (length xs)"

datatype pct = Ret real | PctInf | PctNaN

definition pct_of :: "real \<Rightarrow> real \<Rightarrow> pct" where
  \<comment> \<open>\<open>cur / prev - 1\<close> on doubles\<close>
  "pct_of prev cur =
     (if prev \<noteq> 0 then Ret (cur / prev - 1)
      else if cur = 0 then PctNaN
      else PctInf)"

fun pct_pairs :: "real \<Rightarrow> real list \<Rightarrow> pct list" where
  "pct_pairs prev [] = []"
| "pct_pairs prev (cur # rest) = pct_of prev cur # pct_pairs cur rest"

fun pct_change :: "real list \<Rightarrow> pct list" where
  "pct_change [] = []"
| "pct_change (c # cs) = PctNaN # pct_pairs c cs"

definition dropna :: "pct list \<Rightarrow> pct list" where
  "dropna rs = filter (\<lambda>r. r \<noteq> PctNaN) rs"

fun finite_values :: "pct list \<Rightarrow> real list option" where
  "finite_values [] = Some []"
| "finite_values (Ret x # rs) = map_option (\<lambda>xs. x # xs) (finite_values rs)"
| "finite_values (r # rs) = None"

definition sample_std :: "real list \<Rightarrow> real" where
  \<comment> \<open>standard deviation with \<open>ddof = 1\<close>\<close>
  "sample_std xs =
     sqrt (sum_list (map (\<lambda>x. (x - mean xs)\<^sup>2) xs) / (real (length xs) - 1))"

definition std :: "pct list \<Rightarrow> real option" where
  \<comment> \<open>\<open>Series.std()\<close>; \<open>None\<close> is NaN: fewer than two values, or an infinite one\<close>
  "std rs =
     (case finite_values rs of
        None \<Rightarrow> None
      | Some xs \<Rightarrow> if length xs < 2 then None else Some (sample_std xs))"

definition ge_float :: "real option \<Rightarrow> real \<Rightarrow> bool" where
  \<comment> \<open>\<open>v >= c\<close>, false when \<open>v\<close> is NaN\<close>
  "ge_float v c = (case v of None \<Rightarrow> False | Some x \<Rightarrow> x \<ge> c)"

definition le_float :: "real option \<Rightarrow> real \<Rightarrow> bool" where
  "le_float v c = (case v of None \<Rightarrow> False | Some x \<Rightarrow> x \<le> c)"

definition polyfit_slope :: "real list \<Rightarrow> real" where
  \<comment> \<open>\<open>np.polyfit(np.arange(n), ys, 1)[0]\<close>: the slope of the least-squares line\<close>
  "polyfit_slope ys =
     (let n = real (length ys);
          xs = map real [0 ..< length ys];
          sx = sum_list xs;
          sy = sum_list ys;
          sxy = sum_list (map2 (\<lambda>x y. x * y) xs ys);
          sxx = sum_list (map (\<lambda>x. x * x) xs)
      in (n * sxy - sx * sy) / (n * sxx - sx * sx))"

text \<open>
  Scores are decimal fractions with a few digits; the model computes them exactly, where the
  program computes them in binary floating point. \<open>round\<close> rounds to the nearest
  multiple of the unit and, on a tie, to the even one. On an exact tie in the third decimal
  the double of the program may lie a little above or below the tie and round the other way,
  which moves a score by 0.01 and no bound below depends on.
\<close>

definition round_half_even :: "real \<Rightarrow> int" where
  "round_half_even y =
     (let f = \<lfloor>y\<rfloor>; d = y - of_int f
      in if d < 1 / 2 then f
         else if d > 1 / 2 then f + 1
         else if even f then f else f + 1)"

definition py_round :: "real \<Rightarrow> nat \<Rightarrow> real" where
  \<comment> \<open>\<open>round(x, ndigits)\<close>\<close>
  "py_round x ndigits = of_int (round_half_even (x * 10 ^ ndigits)) / 10 ^ ndigits"

definition format_2f :: "real \<Rightarrow> string" where
  \<comment> \<open>\<open>f"{x:.2f}"\<close>\<close>
  "format_2f x =
     (let n = nat (round_half_even (\<bar>x\<bar> * 100))
      in (if x < 0 then ''-'' else []) @ str_nat (n div 100) @ ''.'' @ zfill 2 (str_nat (n mod 100)))"

section \<open>Instrument features and market regime (prediction_engine.py)\<close>

definition floor_time_to_bucket :: "datetime \<Rightarrow> nat \<Rightarrow> string" where
  "floor_time_to_bucket dt minutes =
     (let minute = (minute (time_part dt) div minutes) * minutes;
          bucket_dt = dt\<lparr>time_part := (time_part dt)\<lparr>minute := minute, second := 0, microsecond := 0\<rparr>\<rparr>
      in strftime_H_M bucket_dt)"

definition determine_stock_trend :: "frame \<Rightarrow> nat \<Rightarrow> string" where
  "determine_stock_trend intraday_df lookback_bars =
     (if intraday_df = [] \<or> length intraday_df < lookback_bars then ''SIDEWAYS''
      else
        let closes = iloc_last lookback_bars (map Close intraday_df);
            slope = polyfit_slope closes
        in if slope > 0 then ''UP''
           else if slope < 0 then ''DOWN''
           else ''SIDEWAYS'')"

definition compute_intraday_volatility_label :: "frame \<Rightarrow> nat \<Rightarrow> string" where
  "compute_intraday_volatility_label intraday_df lookback_bars =
     (if intraday_df = [] \<or> length intraday_df < lookback_bars then ''MEDIUM''
      else
        let closes = iloc_last lookback_bars (map Close intraday_df);
            returns = dropna (pct_change closes)
        in if returns = [] then ''MEDIUM''
           else
             let std = std returns
             in if ge_float std 0.004 then ''HIGH''
                else if le_float std 0.0015 then ''LOW''
                else ''MEDIUM'')"

definition compute_market_regime :: "frame \<Rightarrow> string" where
  "compute_market_regime nifty_intraday =
     (if nifty_intraday = [] \<or> length nifty_intraday < 30 then ''UNKNOWN''
      else
        let df = sort_index nifty_intraday;
            closes = map Close df
        in case closes of
             [] \<Rightarrow> ''UNKNOWN''
           | c # cs \<Rightarrow>
               let first_price = c;
                   last_price = last closes;
                   day_range = fold max cs c - fold min cs c;
                   price_change = \<bar>last_price - first_price\<bar>;
                   trend_ratio = (if day_range = 0 then 0.0 else price_change / day_range);
                   returns = dropna (pct_change closes);
                   intraday_vol = (if returns \<noteq> [] then std returns else Some 0.0);
                   vol_tag = (if ge_float intraday_vol 0.004 then ''HIGH''
                              else if le_float intraday_vol 0.0015 then ''LOW''
                              else ''MEDIUM'');
                   trend_tag = (if trend_ratio \<ge> 0.6 then ''TREND'' else ''RANGE'')
               in if trend_tag = ''TREND'' \<and> (vol_tag = ''HIGH'' \<or> vol_tag = ''MEDIUM'') then ''TREND_DAY''
                  else if trend_tag = ''RANGE'' \<and> vol_tag = ''HIGH'' then ''HIGH_VOLATILITY''
                  else if vol_tag = ''LOW'' then ''LOW_VOLATILITY''
                  else ''RANGE_DAY'')"

definition MARKET_REGIME_DESCRIPTIONS :: "string \<Rightarrow> string option" where
  "MARKET_REGIME_DESCRIPTIONS r =
     (if r = ''TREND_DAY'' then Some (
        ''The overall market (NIFTY) is showing a clear trend with reasonable intraday volatility. ''
        @ ''Scalping in the direction of the main trend is usually favourable.'')
      else if r = ''RANGE_DAY'' then Some (
        ''The overall market (NIFTY) is moving sideways within a range with no clear direction. ''
        @ ''Many scalping signals will fail or reverse quickly in this environment.'')
      else if r = ''HIGH_VOLATILITY'' then Some (
        ''The market is very volatile with wide swings up and down but not always a clear direction. ''
        @ ''Opportunities exist, but risk is also higher, so trade size and discipline must be strict.'')
      else if r = ''LOW_VOLATILITY'' then Some (
        ''The market is relatively quiet with narrow intraday ranges. ''
        @ ''Scalps may not move enough to justify risk, so conditions are often less attractive.'')
      else if r = ''UNKNOWN'' then Some (
        ''There is not enough information yet to classify the overall market regime.'')
      else None)"

section \<open>Data providers (data_providers.py, the abstract interfaces)\<close>

text \<open>
  The engine sees the providers only through their interfaces. A call of
  \<open>get_intraday_history\<close> that raises is \<open>None\<close>; the engine catches it and goes on
  with an empty frame.
\<close>

record market_data_provider =
  get_intraday_history :: "string \<Rightarrow> string \<Rightarrow> string \<Rightarrow> frame option"
  get_nifty_trend_daily :: string

record news_provider =
  get_headlines_for_symbol :: "string \<Rightarrow> nat \<Rightarrow> headline list"

section \<open>Confidence scoring (prediction_engine.py, generate_predictions_for_watchlist)\<close>

text \<open>
  The body of the loop over the watchlist, in the order of the source. \<open>last_price\<close> is
  \<open>None\<close> where the source has \<open>np.nan\<close>.
\<close>

definition actionable_of :: "string \<Rightarrow> string \<Rightarrow> bool" where
  "actionable_of status_code market_regime =
     (let actionable = (status_code = ''SCALP_1'' \<or> status_code = ''SCALP_2'')
      in if status_code = ''SCALP_2'' \<and> market_regime = ''LOW_VOLATILITY'' then False
         else actionable)"

definition instrument_features :: "frame \<Rightarrow> real option \<times> string \<times> string \<times> string" where
  "instrument_features intraday0 =
     (if intraday0 = [] then (None, ''SIDEWAYS'', ''UNKNOWN'', ''MEDIUM'')
      else
        let intraday = sort_index intraday0;
            last_price = Some (last (map Close intraday));
            stock_trend = determine_stock_trend intraday 20;
            recent_vol = mean (iloc_last 20 (map Volume intraday));
            hist_vol = (if length intraday \<ge> 60 then mean (iloc_last 60 (map Volume intraday))
                        else recent_vol);
            volume_ratio = (if hist_vol = 0 then 1.0 else recent_vol / hist_vol);
            volume_signal = (if volume_ratio > 1.5 then ''HIGH''
                             else if volume_ratio < 0.7 then ''LOW''
                             else ''NORMAL'');
            volatility_label = compute_intraday_volatility_label intraday 40
        in (last_price, stock_trend, volume_signal, volatility_label))"

definition prediction_action_of ::
  "bool \<Rightarrow> real option \<Rightarrow> string \<Rightarrow> string \<Rightarrow> string \<Rightarrow> string" where
  "prediction_action_of actionable last_price nifty_trend stock_trend sentiment_label =
     (if actionable \<and> last_price \<noteq> None then
        if nifty_trend = ''BULLISH'' \<and> stock_trend = ''UP'' \<and> sentiment_label \<noteq> ''NEGATIVE''
        then ''LONG_BIAS''
        else if nifty_trend = ''BEARISH'' \<and> stock_trend = ''DOWN'' \<and> sentiment_label \<noteq> ''POSITIVE''
        then ''SHORT_BIAS''
        else ''NO_TRADE''
      else ''NO_TRADE'')"

definition trend_component_of :: "string \<Rightarrow> string \<Rightarrow> string \<Rightarrow> real" where
  "trend_component_of prediction_action nifty_trend stock_trend =
     (if prediction_action = ''LONG_BIAS'' then
        if nifty_trend = ''BULLISH'' \<and> stock_trend = ''UP'' then 1.0
        else if (nifty_trend = ''BULLISH'' \<or> nifty_trend = ''NEUTRAL'') \<and> stock_trend = ''UP'' then 0.7
        else 0.3
      else if prediction_action = ''SHORT_BIAS'' then
        if nifty_trend = ''BEARISH'' \<and> stock_trend = ''DOWN'' then 1.0
        else if (nifty_trend = ''BEARISH'' \<or> nifty_trend = ''NEUTRAL'') \<and> stock_trend = ''DOWN'' then 0.7
        else 0.3
      else 0.0)"

definition volume_component_of :: "string \<Rightarrow> real" where
  "volume_component_of volume_signal =
     (if volume_signal = ''HIGH'' then 1.0
      else if volume_signal = ''NORMAL'' then 0.7
      else if volume_signal = ''LOW'' then 0.3
      else 0.5)"

definition sentiment_component_of :: "string \<Rightarrow> string \<Rightarrow> real" where
  "sentiment_component_of prediction_action sentiment_label =
     (if prediction_action = ''LONG_BIAS'' then
        if sentiment_label = ''POSITIVE'' then 1.0
        else if sentiment_label = ''NEUTRAL'' then 0.7
        else 0.3
      else if prediction_action = ''SHORT_BIAS'' then
        if sentiment_label = ''NEGATIVE'' then 1.0
        else if sentiment_label = ''NEUTRAL'' then 0.7
        else 0.3
      else 0.5)"

definition volatility_component_of :: "string \<Rightarrow> real" where
  "volatility_component_of volatility_label =
     (if volatility_label = ''HIGH'' then 1.0
      else if volatility_label = ''MEDIUM'' then 0.8
      else 0.4)"

definition overall_confidence_of ::
  "string \<Rightarrow> bool \<Rightarrow> real \<Rightarrow> real \<Rightarrow> real \<Rightarrow> real \<Rightarrow> string \<Rightarrow> string \<Rightarrow> real" where
  "overall_confidence_of prediction_action actionable trend_component volume_component
       sentiment_component volatility_component market_regime news_risk_flag =
     (let overall_confidence =
            (if prediction_action = ''NO_TRADE'' \<or> \<not> actionable then 0.0
             else 0.30 * trend_component + 0.25 * volume_component
                  + 0.20 * sentiment_component + 0.25 * volatility_component);
          overall_confidence =
            (if market_regime = ''RANGE_DAY'' then overall_confidence * 0.7
             else if market_regime = ''LOW_VOLATILITY'' then overall_confidence * 0.6
             else overall_confidence);
          overall_confidence =
            (if news_risk_flag = ''EVENT_RISK'' \<or> news_risk_flag = ''BREAKING''
             then min overall_confidence 0.6
             else overall_confidence)
      in py_round overall_confidence 2)"

definition confidence_level_label_of :: "real \<Rightarrow> string" where
  "confidence_level_label_of overall_confidence =
     (if overall_confidence \<ge> 0.7 then ''High''
      else if overall_confidence \<ge> 0.4 then ''Medium''
      else if overall_confidence > 0 then ''Low''
      else ''Very Low or No Trade'')"

definition confidence_explanation_of ::
  "string \<Rightarrow> real \<Rightarrow> real \<Rightarrow> real \<Rightarrow> real \<Rightarrow> real \<Rightarrow> string \<Rightarrow> string \<Rightarrow> string \<Rightarrow> string" where
  "confidence_explanation_of prediction_action trend_component volume_component
       sentiment_component volatility_component overall_confidence confidence_level_label
       market_regime news_risk_flag =
     (let conf_explanation_parts =
            [if prediction_action = ''LONG_BIAS'' then
               ''The system currently sees this stock as a candidate for a short-term buying (long) scalp.''
             else if prediction_action = ''SHORT_BIAS'' then
               ''The system currently sees this stock as a candidate for a short-term selling or short-selling scalp.''
             else
               ''The system does not see a clear short-term scalping opportunity at this moment.''];
          conf_explanation_parts = conf_explanation_parts @
            [''Trend alignment score is '' @ format_2f trend_component
             @ '', volume confirmation score is '' @ format_2f volume_component @ '', ''
             @ ''news sentiment support score is '' @ format_2f sentiment_component
             @ '', and volatility suitability score is '' @ format_2f volatility_component @ ''.''];
          conf_explanation_parts = conf_explanation_parts @
            [''The overall confidence score is '' @ format_2f overall_confidence
             @ '', classified as '' @ [CHR 0x27] @ confidence_level_label @ [CHR 0x27] @ ''.''];
          conf_explanation_parts = conf_explanation_parts @
            (if market_regime \<noteq> ''UNKNOWN''
             then [case MARKET_REGIME_DESCRIPTIONS market_regime of None \<Rightarrow> [] | Some d \<Rightarrow> d]
             else []);
          conf_explanation_parts = conf_explanation_parts @
            (if news_risk_flag = ''EVENT_RISK'' then
               [''There is an important scheduled or structural news event around this stock (for example earnings, ''
                @ ''policy decisions, corporate actions, or legal developments). Signals around such events can be more volatile.'']
             else if news_risk_flag = ''BREAKING'' then
               [''There appears to be very fresh or urgent news for this stock. This can create sharp and unpredictable ''
                @ ''moves, so you should treat any signal with extra caution and possibly reduce position size.'']
             else [])
      in join '' '' conf_explanation_parts)"

text \<open>
  Lines 260 to 356 of the loop body: from the features of one instrument to its action,
  its four confidence components, its overall score and the label of the score.
\<close>

record scoring =
  action :: string
  trend_component :: real
  volume_component :: real
  sentiment_component :: real
  volatility_component :: real
  overall_confidence :: real
  level_label :: string

definition score_row ::
  "bool \<Rightarrow> string \<Rightarrow> string \<Rightarrow> real option \<Rightarrow> string \<Rightarrow> string \<Rightarrow> string \<Rightarrow> string \<Rightarrow> string
     \<Rightarrow> scoring" where
  "score_row actionable market_regime nifty_trend last_price stock_trend volume_signal
       volatility_label sentiment_label news_risk_flag =
     (let prediction_action =
            prediction_action_of actionable last_price nifty_trend stock_trend sentiment_label;
          trend_component = trend_component_of prediction_action nifty_trend stock_trend;
          volume_component = volume_component_of volume_signal;
          sentiment_component = sentiment_component_of prediction_action sentiment_label;
          volatility_component = volatility_component_of volatility_label;
          overall_confidence =
            overall_confidence_of prediction_action actionable trend_component volume_component
              sentiment_component volatility_component market_regime news_risk_flag;
          confidence_level_label = confidence_level_label_of overall_confidence
      in \<lparr>action = prediction_action,
          trend_component = trend_component,
          volume_component = volume_component,
          sentiment_component = sentiment_component,
          volatility_component = volatility_component,
          overall_confidence = overall_confidence,
          level_label = confidence_level_label\<rparr>)"

section \<open>Predictions (the rows that generate_predictions_for_watchlist returns)\<close>

record watchlist_row =
  ticker :: string
  data_symbol :: string
  index_bucket :: string

text \<open>
  A prediction row has the columns of \<open>PREDICTION_COLUMNS\<close>. The column \<open>datetime_ist\<close>
  holds a rendering of the instant of evaluation (\<open>now_ist.isoformat()\<close>, re-rendered by
  \<open>pd.to_datetime(...).astype(str)\<close> on its way into the journal); the model keeps the
  instant itself, on which these renderings are the identity. \<open>price_at_prediction\<close> is
  \<open>None\<close> where the source has NaN.
\<close>

record prediction =
  prediction_id :: string
  datetime_ist :: datetime
  date :: pydate
  time_bucket :: string
  ticker :: string
  data_symbol :: string
  index_bucket :: string
  nifty_trend :: string
  stock_short_trend :: string
  market_regime :: string
  prediction_action :: string
  confidence_score :: real
  confidence_level_label :: string
  confidence_trend :: real
  confidence_volume :: real
  confidence_sentiment :: real
  confidence_volatility :: real
  confidence_explanation :: string
  valid_for_minutes :: nat
  price_at_prediction :: "real option"
  volume_signal :: string
  sentiment_score :: real
  sentiment_label :: string
  news_summary :: string
  news_risk_flag :: string
  status_code :: string
  strategy_version :: string

definition predict_row ::
  "market_data_provider \<Rightarrow> news_provider \<Rightarrow> string \<Rightarrow> datetime \<Rightarrow> string \<Rightarrow> string
     \<Rightarrow> string \<Rightarrow> bool \<Rightarrow> watchlist_row \<Rightarrow> prediction" where
  "predict_row mdp np version now_ist code_now trend_now regime_now actionable row =
     (let ticker = watchlist_row.ticker row;
          data_symbol = watchlist_row.data_symbol row;
          index_bucket = watchlist_row.index_bucket row;
          intraday = (case get_intraday_history mdp data_symbol ''1d'' ''5m'' of
                        None \<Rightarrow> [] | Some df \<Rightarrow> df);
          (last_price, stock_trend, volume_signal, volatility_label) = instrument_features intraday;
          headlines = get_headlines_for_symbol np ticker 5;
          (sentiment_score, sentiment_label, news_summary) = simple_sentiment_from_headlines headlines;
          news_risk_flag = determine_news_risk headlines;
          sc = score_row actionable regime_now trend_now last_price stock_trend volume_signal
                 volatility_label sentiment_label news_risk_flag;
          prediction_action = action sc;
          trend_component = trend_component sc;
          volume_component = volume_component sc;
          sentiment_component = sentiment_component sc;
          volatility_component = volatility_component sc;
          overall_confidence = overall_confidence sc;
          confidence_level_label = level_label sc;
          confidence_explanation =
            confidence_explanation_of prediction_action trend_component volume_component
              sentiment_component volatility_component overall_confidence confidence_level_label
              regime_now news_risk_flag;
          time_bucket = floor_time_to_bucket now_ist PREDICTION_TIME_BUCKET_MINUTES;
          prediction_id = strftime_Ymd now_ist @ ''_'' @ time_bucket @ ''_'' @ ticker
      in \<lparr>prediction_id = prediction_id,
          datetime_ist = now_ist,
          date = date_part now_ist,
          time_bucket = time_bucket,
          ticker = ticker,
          data_symbol = data_symbol,
          index_bucket = index_bucket,
          nifty_trend = trend_now,
          stock_short_trend = stock_trend,
          market_regime = regime_now,
          prediction_action = prediction_action,
          confidence_score = overall_confidence,
          confidence_level_label = confidence_level_label,
          confidence_trend = py_round trend_component 2,
          confidence_volume = py_round volume_component 2,
          confidence_sentiment = py_round sentiment_component 2,
          confidence_volatility = py_round volatility_component 2,
          confidence_explanation = confidence_explanation,
          valid_for_minutes = SCALP_VALID_MINUTES,
          price_at_prediction = last_price,
          volume_signal = volume_signal,
          sentiment_score = py_round sentiment_score 3,
          sentiment_label = sentiment_label,
          news_summary = news_summary,
          news_risk_flag = news_risk_flag,
          status_code = code_now,
          strategy_version = version\<rparr>)"

definition generate_predictions_for_watchlist ::
  "watchlist_row list \<Rightarrow> market_data_provider \<Rightarrow> news_provider \<Rightarrow> string \<Rightarrow> datetime
     \<Rightarrow> prediction list" where
  "generate_predictions_for_watchlist watchlist_df mdp np version now_ist =
     (if watchlist_df = [] then []
      else
        let status = get_time_status now_ist;
            code_now = code status;
            trend_now = get_nifty_trend_daily mdp;
            nifty_intraday = (case get_intraday_history mdp NIFTY_SYMBOL_YF ''1d'' ''5m'' of
                                None \<Rightarrow> [] | Some df \<Rightarrow> df);
            regime_now = compute_market_regime nifty_intraday;
            actionable = actionable_of code_now regime_now
        in map (predict_row mdp np version now_ist code_now trend_now regime_now actionable)
               watchlist_df)"

section \<open>Prediction journal (journal.py)\<close>

text \<open>
  The journal is the table kept in the journal file: a list of prediction rows in file
  order. \<open>upsert_predictions\<close> loads it, merges the new rows and saves it; the model
  takes the stored table and returns the table that is stored afterwards.
\<close>

definition same_key :: "prediction \<Rightarrow> prediction \<Rightarrow> bool" where
  "same_key x row = (date x = date row \<and> time_bucket x = time_bucket row \<and> ticker x = ticker row)"

fun first_index :: "('a \<Rightarrow> bool) \<Rightarrow> 'a list \<Rightarrow> nat option" where
  "first_index P [] = None"
| "first_index P (x # xs) = (if P x then Some 0 else map_option Suc (first_index P xs))"

definition overwrite_columns :: "prediction \<Rightarrow> prediction \<Rightarrow> prediction" where
  \<comment> \<open>\<open>for col in PREDICTION_COLUMNS: journal_df.at[idx, col] = row.get(col, ...)\<close>\<close>
  "overwrite_columns old row =
     old\<lparr>prediction_id := prediction_id row,
         datetime_ist := datetime_ist row,
         date := date row,
         time_bucket := time_bucket row,
         ticker := ticker row,
         data_symbol := data_symbol row,
         index_bucket := index_bucket row,
         nifty_trend := nifty_trend row,
         stock_short_trend := stock_short_trend row,
         market_regime := market_regime row,
         prediction_action := prediction_action row,
         confidence_score := confidence_score row,
         confidence_level_label := confidence_level_label row,
         confidence_trend := confidence_trend row,
         confidence_volume := confidence_volume row,
         confidence_sentiment := confidence_sentiment row,
         confidence_volatility := confidence_volatility row,
         confidence_explanation := confidence_explanation row,
         valid_for_minutes := valid_for_minutes row,
         price_at_prediction := price_at_prediction row,
         volume_signal := volume_signal row,
         sentiment_score := sentiment_score row,
         sentiment_label := sentiment_label row,
         news_summary := news_summary row,
         news_risk_flag := news_risk_flag row,
         status_code := status_code row,
         strategy_version := strategy_version row\<rparr>"

definition upsert_row :: "prediction list \<Rightarrow> prediction \<Rightarrow> prediction list" where
  "upsert_row journal_df row =
     (case first_index (\<lambda>x. same_key x row) journal_df of
        Some idx \<Rightarrow> journal_df[idx := overwrite_columns (journal_df ! idx) row]
      | None \<Rightarrow> journal_df @ [row])"

fun drop_duplicates_keep_last :: "prediction list \<Rightarrow> prediction list" where
  "drop_duplicates_keep_last [] = []"
| "drop_duplicates_keep_last (x # xs) =
     (if list_ex (same_key x) xs then drop_duplicates_keep_last xs
      else x # drop_duplicates_keep_last xs)"

definition upsert_predictions :: "prediction list \<Rightarrow> prediction list \<Rightarrow> prediction list" where
  "upsert_predictions journal new_preds =
     (if new_preds = [] then journal
      else drop_duplicates_keep_last (foldl upsert_row journal new_preds))"

section \<open>Vocabulary for the journal properties\<close>

definition prediction_key :: "prediction \<Rightarrow> pydate \<times> string \<times> string" where
  "prediction_key p = (date p, time_bucket p, ticker p)"




section \<open>The regime classifier as the specification words it\<close>

text \<open>
  Section 4.3 of the specification, read on the closes of the benchmark series in time
  order, in plain real arithmetic: the percentage change of a close against the one before
  it, the sample standard deviation of these changes, the two buckets and the combination
  rule in its priority order.
\<close>

datatype vol_bucket = VOL_HIGH | VOL_MEDIUM | VOL_LOW

datatype trend_bucket = TREND | RANGE




section \<open>Example inputs\<close>

text \<open>
  Concrete providers, rows and frames on which the theorems below are evaluated:
  \<open>StubNewsProvider\<close> is the stub of data_providers.py, the others are test doubles.
\<close>

definition StubNewsProvider :: news_provider where
  "StubNewsProvider = \<lparr>get_headlines_for_symbol = (\<lambda>ticker limit. [])\<rparr>"

definition no_data_provider :: market_data_provider where
  "no_data_provider =
     \<lparr>get_intraday_history = (\<lambda>symbol period interval. None),
      get_nifty_trend_daily = ''BULLISH''\<rparr>"

definition rising_frame :: frame where
  "rising_frame = map (\<lambda>i. \<lparr>timestamp = i, Close = 100 + real i, Volume = 1000\<rparr>)
     [0, 1, 2, 3, 4, 5, 6, 7, 8, 9, 10, 11, 12, 13, 14, 15, 16, 17, 18, 19]"

definition rising_provider :: market_data_provider where
  "rising_provider =
     \<lparr>get_intraday_history =
        (\<lambda>symbol period interval. if symbol = NIFTY_SYMBOL_YF then None else Some rising_frame),
      get_nifty_trend_daily = ''BULLISH''\<rparr>"

definition breaking_news_provider :: news_provider where
  "breaking_news_provider =
     \<lparr>get_headlines_for_symbol =
        (\<lambda>ticker limit. [\<lparr>title = Some ''Breaking: record profit'', description = None\<rparr>])\<rparr>"

definition example_row :: watchlist_row where
  "example_row = \<lparr>watchlist_row.ticker = ''TCS'', watchlist_row.data_symbol = ''TCS.NS'',
                   watchlist_row.index_bucket = ''NIFTY50''\<rparr>"

definition example_day :: pydate where
  "example_day = \<lparr>year = 2024, month = 3, day = 5\<rparr>"

definition example_now :: datetime where
  "example_now = at_time example_day (time 10 37)"





definition zigzag_frame :: frame where
  "zigzag_frame =
     map (\<lambda>i. \<lparr>timestamp = i, Close = (if even i then 100 else 200), Volume = 1000\<rparr>)
     [0, 1, 2, 3, 4, 5, 6, 7, 8, 9, 10, 11, 12, 13, 14, 15, 16, 17, 18, 19,
      20, 21, 22, 23, 24, 25, 26, 27, 28, 29]"








section \<open>Properties of the session clock\<close>

lemma time_cmp_simps:
  "time_lt \<lparr>hour = h, minute = m, second = s, microsecond = u\<rparr> (time H M) =
     (h < H \<or> (h = H \<and> m < M))"
  "time_lt (time H M) \<lparr>hour = h, minute = m, second = s, microsecond = u\<rparr> =
     (H < h \<or> (H = h \<and> (M < m \<or> (M = m \<and> (0 < s \<or> (s = 0 \<and> 0 < u))))))"
  "time_le (time H M) \<lparr>hour = h, minute = m, second = s, microsecond = u\<rparr> =
     (H < h \<or> (H = h \<and> M \<le> m))"
  "time_le \<lparr>hour = h, minute = m, second = s, microsecond = u\<rparr> (time H M) =
     (h < H \<or> (h = H \<and> (m < M \<or> (m = M \<and> s = 0 \<and> u = 0))))"
  by (auto simp: time_lt_def time_le_def time_def)

lemmas clock_consts =
  MARKET_OPEN_def STUDY_END_def SCALP_1_START_def SCALP_1_END_def NO_NEW_1_START_def
  NO_NEW_1_END_def SCALP_2_START_def SCALP_2_END_def NO_NEW_2_START_def MARKET_CLOSE_def

lemma code_get_time_status:
  "code (get_time_status now_ist) =
     (let t = time_part now_ist in
      if time_lt t (time 9 15) \<or> time_lt (time 15 30) t then ''CLOSED''
      else if time_lt t (time 10 0) then ''STUDY''
      else if time_lt t (time 11 30) then ''SCALP_1''
      else if time_lt t (time 13 30) then ''NO_NEW_1''
      else if time_lt t (time 14 45) then ''SCALP_2''
      else ''NO_NEW_2'')"
proof -
  obtain h m s u where t: "time_part now_ist = \<lparr>hour = h, minute = m, second = s, microsecond = u\<rparr>"
    by (cases "time_part now_ist") auto
  show ?thesis
    unfolding get_time_status_def Let_def clock_consts t time_cmp_simps
    by (simp; linarith)
qed

text \<open>
  C2: the session phase is a function of the time of day and follows the partition
  CLOSED before 09:15 or after 15:30, STUDY on [09:15, 10:00), SCALP_1 on [10:00, 11:30),
  NO_NEW_1 on [11:30, 13:30), SCALP_2 on [13:30, 14:45), NO_NEW_2 on [14:45, 15:30];
  the fallback OPEN is never returned; and the nine boundary times of the specification
  get the phases it lists, on every date.
\<close>

theorem get_time_status_partition:
  "(code (get_time_status now_ist) = ''CLOSED'') =
     (time_lt (time_part now_ist) (time 9 15) \<or> time_lt (time 15 30) (time_part now_ist))
   \<and> (code (get_time_status now_ist) = ''STUDY'') =
     (time_le (time 9 15) (time_part now_ist) \<and> time_lt (time_part now_ist) (time 10 0))
   \<and> (code (get_time_status now_ist) = ''SCALP_1'') =
     (time_le (time 10 0) (time_part now_ist) \<and> time_lt (time_part now_ist) (time 11 30))
   \<and> (code (get_time_status now_ist) = ''NO_NEW_1'') =
     (time_le (time 11 30) (time_part now_ist) \<and> time_lt (time_part now_ist) (time 13 30))
   \<and> (code (get_time_status now_ist) = ''SCALP_2'') =
     (time_le (time 13 30) (time_part now_ist) \<and> time_lt (time_part now_ist) (time 14 45))
   \<and> (code (get_time_status now_ist) = ''NO_NEW_2'') =
     (time_le (time 14 45) (time_part now_ist) \<and> time_le (time_part now_ist) (time 15 30))
   \<and> code (get_time_status now_ist) \<noteq> ''OPEN''
   \<and> code (get_time_status (at_time d (time 9 14))) = ''CLOSED''
   \<and> code (get_time_status (at_time d (time 9 15))) = ''STUDY''
   \<and> code (get_time_status (at_time d (time 9 59))) = ''STUDY''
   \<and> code (get_time_status (at_time d (time 10 0))) = ''SCALP_1''
   \<and> code (get_time_status (at_time d (time 11 30))) = ''NO_NEW_1''
   \<and> code (get_time_status (at_time d (time 13 30))) = ''SCALP_2''
   \<and> code (get_time_status (at_time d (time 14 45))) = ''NO_NEW_2''
   \<and> code (get_time_status (at_time d (time 15 30))) = ''NO_NEW_2''
   \<and> code (get_time_status (at_time d (time 15 31))) = ''CLOSED''"
proof -
  obtain h m s u where t: "time_part now_ist = \<lparr>hour = h, minute = m, second = s, microsecond = u\<rparr>"
    by (cases "time_part now_ist") auto
  have general:
    "(code (get_time_status now_ist) = ''CLOSED'') =
       (time_lt (time_part now_ist) (time 9 15) \<or> time_lt (time 15 30) (time_part now_ist))"
    "(code (get_time_status now_ist) = ''STUDY'') =
       (time_le (time 9 15) (time_part now_ist) \<and> time_lt (time_part now_ist) (time 10 0))"
    "(code (get_time_status now_ist) = ''SCALP_1'') =
       (time_le (time 10 0) (time_part now_ist) \<and> time_lt (time_part now_ist) (time 11 30))"
    "(code (get_time_status now_ist) = ''NO_NEW_1'') =
       (time_le (time 11 30) (time_part now_ist) \<and> time_lt (time_part now_ist) (time 13 30))"
    "(code (get_time_status now_ist) = ''SCALP_2'') =
       (time_le (time 13 30) (time_part now_ist) \<and> time_lt (time_part now_ist) (time 14 45))"
    "(code (get_time_status now_ist) = ''NO_NEW_2'') =
       (time_le (time 14 45) (time_part now_ist) \<and> time_le (time_part now_ist) (time 15 30))"
    "code (get_time_status now_ist) \<noteq> ''OPEN''"
    unfolding code_get_time_status Let_def t time_cmp_simps by auto
  have points:
    "code (get_time_status (at_time d (time 9 14))) = ''CLOSED''"
    "code (get_time_status (at_time d (time 9 15))) = ''STUDY''"
    "code (get_time_status (at_time d (time 9 59))) = ''STUDY''"
    "code (get_time_status (at_time d (time 10 0))) = ''SCALP_1''"
    "code (get_time_status (at_time d (time 11 30))) = ''NO_NEW_1''"
    "code (get_time_status (at_time d (time 13 30))) = ''SCALP_2''"
    "code (get_time_status (at_time d (time 14 45))) = ''NO_NEW_2''"
    "code (get_time_status (at_time d (time 15 30))) = ''NO_NEW_2''"
    "code (get_time_status (at_time d (time 15 31))) = ''CLOSED''"
    by (simp_all add: code_get_time_status at_time_def time_lt_def time_def)
  from general points show ?thesis
    by (intro conjI)
qed

section \<open>Properties of rounding\<close>

lemma round_half_even_floor:
  "round_half_even y = \<lfloor>y\<rfloor> \<or> round_half_even y = \<lfloor>y\<rfloor> + 1"
  by (simp add: round_half_even_def Let_def)

lemma round_half_even_exact: "round_half_even (of_int n) = n"
  by (simp add: round_half_even_def Let_def)

lemma round_half_even_le: "y \<le> of_int n \<Longrightarrow> round_half_even y \<le> n"
proof (cases "y = of_int n")
  case True
  then show ?thesis by (simp add: round_half_even_exact)
next
  case False
  assume "y \<le> of_int n"
  with False have "y < of_int n" by simp
  then have "\<lfloor>y\<rfloor> < n" by (simp add: floor_less_iff)
  with round_half_even_floor [of y] show ?thesis by auto
qed

lemma round_half_even_ge: "of_int n \<le> y \<Longrightarrow> n \<le> round_half_even y"
proof -
  assume "of_int n \<le> y"
  then have "n \<le> \<lfloor>y\<rfloor>" by (simp add: le_floor_iff)
  with round_half_even_floor [of y] show ?thesis by auto
qed

lemma py_round_le:
  assumes "x \<le> of_int n / 100"
  shows "py_round x 2 \<le> of_int n / 100"
proof -
  have "x * 100 \<le> of_int n" using assms by simp
  then have "round_half_even (x * 100) \<le> n" by (rule round_half_even_le)
  then have "(of_int (round_half_even (x * 100)) :: real) \<le> of_int n" by simp
  then show ?thesis unfolding py_round_def by (simp add: divide_right_mono)
qed

lemma py_round_ge:
  assumes "of_int n / 100 \<le> x"
  shows "of_int n / 100 \<le> py_round x 2"
proof -
  have "of_int n \<le> x * 100" using assms by simp
  then have "n \<le> round_half_even (x * 100)" by (rule round_half_even_ge)
  then have "(of_int n :: real) \<le> of_int (round_half_even (x * 100))" by simp
  then show ?thesis unfolding py_round_def by (simp add: divide_right_mono)
qed

lemma py_round_0: "py_round 0 2 = 0"
  by (simp add: py_round_def round_half_even_def)

lemma py_round_1: "py_round 1 2 = 1"
  by (simp add: py_round_def round_half_even_def)

section \<open>Properties of the confidence scoring\<close>

lemma component_ranges:
  "0 \<le> trend_component_of a n st" "trend_component_of a n st \<le> 1"
  "0 \<le> volume_component_of vs" "volume_component_of vs \<le> 1"
  "0 \<le> sentiment_component_of a sl" "sentiment_component_of a sl \<le> 1"
  "0 \<le> volatility_component_of vl" "volatility_component_of vl \<le> 1"
  by (simp_all add: trend_component_of_def volume_component_of_def sentiment_component_of_def
      volatility_component_of_def)

lemma overall_confidence_of_bounds:
  assumes "0 \<le> t" "t \<le> 1" "0 \<le> v" "v \<le> 1" "0 \<le> s" "s \<le> 1" "0 \<le> vo" "vo \<le> 1"
  shows "0 \<le> overall_confidence_of a act t v s vo mr risk"
    and "overall_confidence_of a act t v s vo mr risk \<le> 1"
    and "risk = ''EVENT_RISK'' \<or> risk = ''BREAKING'' \<Longrightarrow>
           overall_confidence_of a act t v s vo mr risk \<le> 0.6"
    and "a = ''NO_TRADE'' \<or> \<not> act \<Longrightarrow> overall_confidence_of a act t v s vo mr risk = 0"
proof -
  define base :: real where
    "base = (if a = ''NO_TRADE'' \<or> \<not> act then 0.0
             else 0.30 * t + 0.25 * v + 0.20 * s + 0.25 * vo)"
  define damped :: real where
    "damped = (if mr = ''RANGE_DAY'' then base * 0.7
               else if mr = ''LOW_VOLATILITY'' then base * 0.6 else base)"
  define capped :: real where
    "capped = (if risk = ''EVENT_RISK'' \<or> risk = ''BREAKING'' then min damped 0.6 else damped)"
  have oc: "overall_confidence_of a act t v s vo mr risk = py_round capped 2"
    unfolding overall_confidence_of_def Let_def capped_def damped_def base_def by simp
  have base: "0 \<le> base" "base \<le> 1"
    using assms unfolding base_def by auto
  have damped: "0 \<le> damped" "damped \<le> 1"
    using base unfolding damped_def by auto
  have capped: "0 \<le> capped" "capped \<le> 1"
    using damped unfolding capped_def by auto
  from capped(1) have "of_int 0 / 100 \<le> py_round capped 2"
    by (intro py_round_ge) simp
  then show "0 \<le> overall_confidence_of a act t v s vo mr risk"
    by (simp add: oc)
  from capped(2) have "py_round capped 2 \<le> of_int 100 / 100"
    by (intro py_round_le) simp
  then show "overall_confidence_of a act t v s vo mr risk \<le> 1"
    by (simp add: oc)
  show "overall_confidence_of a act t v s vo mr risk \<le> 0.6"
    if "risk = ''EVENT_RISK'' \<or> risk = ''BREAKING''"
  proof -
    from that have "capped \<le> of_int 60 / 100"
      unfolding capped_def by auto
    then have "py_round capped 2 \<le> of_int 60 / 100"
      by (rule py_round_le)
    then show ?thesis by (simp add: oc)
  qed
  show "overall_confidence_of a act t v s vo mr risk = 0" if "a = ''NO_TRADE'' \<or> \<not> act"
  proof -
    from that have "capped = 0"
      unfolding capped_def damped_def base_def by auto
    then show ?thesis by (simp add: oc py_round_0)
  qed
qed

lemma score_row_fields:
  "action (score_row act mr nt lp st vs vl sl risk) = prediction_action_of act lp nt st sl"
  "trend_component (score_row act mr nt lp st vs vl sl risk) =
     trend_component_of (prediction_action_of act lp nt st sl) nt st"
  "volume_component (score_row act mr nt lp st vs vl sl risk) = volume_component_of vs"
  "sentiment_component (score_row act mr nt lp st vs vl sl risk) =
     sentiment_component_of (prediction_action_of act lp nt st sl) sl"
  "volatility_component (score_row act mr nt lp st vs vl sl risk) = volatility_component_of vl"
  "overall_confidence (score_row act mr nt lp st vs vl sl risk) =
     overall_confidence_of (prediction_action_of act lp nt st sl) act
       (trend_component_of (prediction_action_of act lp nt st sl) nt st)
       (volume_component_of vs)
       (sentiment_component_of (prediction_action_of act lp nt st sl) sl)
       (volatility_component_of vl) mr risk"
  "level_label (score_row act mr nt lp st vs vl sl risk) =
     confidence_level_label_of (overall_confidence (score_row act mr nt lp st vs vl sl risk))"
  by (simp_all add: score_row_def Let_def)

lemma score_row_bounds:
  "0 \<le> overall_confidence (score_row act mr nt lp st vs vl sl risk)"
  "overall_confidence (score_row act mr nt lp st vs vl sl risk) \<le> 1"
  "action (score_row act mr nt lp st vs vl sl risk) = ''NO_TRADE''
     \<Longrightarrow> overall_confidence (score_row act mr nt lp st vs vl sl risk) = 0"
  "risk = ''EVENT_RISK'' \<or> risk = ''BREAKING''
     \<Longrightarrow> overall_confidence (score_row act mr nt lp st vs vl sl risk) \<le> 0.6"
proof -
  let ?a = "prediction_action_of act lp nt st sl"
  have r: "0 \<le> trend_component_of ?a nt st" "trend_component_of ?a nt st \<le> 1"
    "0 \<le> volume_component_of vs" "volume_component_of vs \<le> 1"
    "0 \<le> sentiment_component_of ?a sl" "sentiment_component_of ?a sl \<le> 1"
    "0 \<le> volatility_component_of vl" "volatility_component_of vl \<le> 1"
    by (rule component_ranges)+
  note b = overall_confidence_of_bounds [OF r,
      where a = ?a and act = act and mr = mr and risk = risk]
  show "0 \<le> overall_confidence (score_row act mr nt lp st vs vl sl risk)"
    "overall_confidence (score_row act mr nt lp st vs vl sl risk) \<le> 1"
    unfolding score_row_fields using b by auto
  show "overall_confidence (score_row act mr nt lp st vs vl sl risk) = 0"
    if "action (score_row act mr nt lp st vs vl sl risk) = ''NO_TRADE''"
    using that b(4) unfolding score_row_fields by auto
  show "overall_confidence (score_row act mr nt lp st vs vl sl risk) \<le> 0.6"
    if "risk = ''EVENT_RISK'' \<or> risk = ''BREAKING''"
    using that b(3) unfolding score_row_fields by auto
qed

lemma score_row_trend:
  "action (score_row act mr nt lp st vs vl sl risk) = ''LONG_BIAS''
     \<or> action (score_row act mr nt lp st vs vl sl risk) = ''SHORT_BIAS''
   \<Longrightarrow> trend_component (score_row act mr nt lp st vs vl sl risk) = 1"
  "action (score_row act mr nt lp st vs vl sl risk) = ''NO_TRADE''
   \<Longrightarrow> trend_component (score_row act mr nt lp st vs vl sl risk) = 0"
  "trend_component (score_row act mr nt lp st vs vl sl risk) = 0
     \<or> trend_component (score_row act mr nt lp st vs vl sl risk) = 1"
  by (auto simp: score_row_fields prediction_action_of_def trend_component_of_def
      split: if_splits)

lemma predict_row_scoring:
  "\<exists>lp st vs vl sl risk.
     (let p = predict_row mdp np version now phase nt regime act row;
          s = score_row act regime nt lp st vs vl sl risk
      in status_code p = phase \<and> market_regime p = regime \<and> nifty_trend p = nt
         \<and> price_at_prediction p = lp \<and> stock_short_trend p = st \<and> volume_signal p = vs
         \<and> sentiment_label p = sl \<and> news_risk_flag p = risk
         \<and> prediction_action p = action s
         \<and> confidence_score p = overall_confidence s
         \<and> confidence_level_label p = level_label s
         \<and> confidence_trend p = py_round (trend_component s) 2
         \<and> confidence_volume p = py_round (volume_component s) 2
         \<and> confidence_sentiment p = py_round (sentiment_component s) 2
         \<and> confidence_volatility p = py_round (volatility_component s) 2)"
  unfolding predict_row_def Let_def
  by (auto split: prod.splits)

lemma generate_predictions_rows:
  assumes "p \<in> set (generate_predictions_for_watchlist wl mdp np version now)"
  shows "\<exists>row \<in> set wl.
           p = predict_row mdp np version now (code (get_time_status now))
                 (get_nifty_trend_daily mdp)
                 (compute_market_regime
                    (case get_intraday_history mdp NIFTY_SYMBOL_YF ''1d'' ''5m'' of
                       None \<Rightarrow> [] | Some df \<Rightarrow> df))
                 (actionable_of (code (get_time_status now))
                    (compute_market_regime
                       (case get_intraday_history mdp NIFTY_SYMBOL_YF ''1d'' ''5m'' of
                          None \<Rightarrow> [] | Some df \<Rightarrow> df)))
                 row"
  using assms unfolding generate_predictions_for_watchlist_def Let_def
  by (auto split: if_splits)

lemma generated_prediction_scoring:
  assumes "p \<in> set (generate_predictions_for_watchlist wl mdp np version now)"
  shows "\<exists>vl.
     (let s = score_row (actionable_of (status_code p) (market_regime p)) (market_regime p)
                (nifty_trend p) (price_at_prediction p) (stock_short_trend p)
                (volume_signal p) vl (sentiment_label p) (news_risk_flag p)
      in prediction_action p = action s
         \<and> confidence_score p = overall_confidence s
         \<and> confidence_level_label p = level_label s
         \<and> confidence_trend p = py_round (trend_component s) 2
         \<and> confidence_volume p = py_round (volume_component s) 2
         \<and> confidence_sentiment p = py_round (sentiment_component s) 2
         \<and> confidence_volatility p = py_round (volatility_component s) 2)"
proof -
  from generate_predictions_rows [OF assms] obtain row phase nt regime where
    p: "p = predict_row mdp np version now phase nt regime (actionable_of phase regime) row"
    by blast
  from predict_row_scoring [of mdp np version now phase nt regime "actionable_of phase regime" row]
  show ?thesis
    unfolding p Let_def by metis
qed

lemma predict_row_fields:
  assumes "instrument_features
             (case get_intraday_history mdp (watchlist_row.data_symbol row) ''1d'' ''5m'' of
                None \<Rightarrow> [] | Some df \<Rightarrow> df) = (lp, st, vs, vl)"
    and "simple_sentiment_from_headlines
           (get_headlines_for_symbol np (watchlist_row.ticker row) 5) = (ss, sl, summary)"
    and "determine_news_risk (get_headlines_for_symbol np (watchlist_row.ticker row) 5) = risk"
  shows "prediction_action (predict_row mdp np version now phase nt regime act row) =
           action (score_row act regime nt lp st vs vl sl risk)"
    and "confidence_score (predict_row mdp np version now phase nt regime act row) =
           overall_confidence (score_row act regime nt lp st vs vl sl risk)"
    and "confidence_trend (predict_row mdp np version now phase nt regime act row) =
           py_round (trend_component (score_row act regime nt lp st vs vl sl risk)) 2"
    and "news_risk_flag (predict_row mdp np version now phase nt regime act row) = risk"
    and "price_at_prediction (predict_row mdp np version now phase nt regime act row) = lp"
  using assms unfolding predict_row_def Let_def by simp_all


lemma instrument_features_price:
  "fst (instrument_features intraday) = None \<longleftrightarrow> intraday = []"
  by (simp add: instrument_features_def Let_def)

lemma predict_row_price:
  "price_at_prediction (predict_row mdp np version now phase nt regime act row) = None
   \<longleftrightarrow> (case get_intraday_history mdp (watchlist_row.data_symbol row) ''1d'' ''5m'' of
          None \<Rightarrow> True | Some df \<Rightarrow> df = [])"
proof -
  obtain lp st vs vl where f: "instrument_features
      (case get_intraday_history mdp (watchlist_row.data_symbol row) ''1d'' ''5m'' of
         None \<Rightarrow> [] | Some df \<Rightarrow> df) = (lp, st, vs, vl)"
    by (metis prod_cases4)
  obtain ss sl summary where s: "simple_sentiment_from_headlines
      (get_headlines_for_symbol np (watchlist_row.ticker row) 5) = (ss, sl, summary)"
    by (metis prod_cases3)
  have "price_at_prediction (predict_row mdp np version now phase nt regime act row) = lp"
    by (rule predict_row_fields(5) [OF f s refl])
  moreover from f have "lp = None \<longleftrightarrow>
      (case get_intraday_history mdp (watchlist_row.data_symbol row) ''1d'' ''5m'' of
         None \<Rightarrow> [] | Some df \<Rightarrow> df) = []"
    using instrument_features_price by (metis fst_conv)
  ultimately show ?thesis
    by (simp split: option.splits)
qed

subsection \<open>The two example evaluations\<close>

lemma example_status: "code (get_time_status example_now) = ''SCALP_1''"
  by (simp add: code_get_time_status example_now_def at_time_def time_lt_def time_def)

lemma quiet_generate:
  "generate_predictions_for_watchlist [example_row] no_data_provider StubNewsProvider ''v1.0''
     example_now =
   [predict_row no_data_provider StubNewsProvider ''v1.0'' example_now
      ''SCALP_1'' ''BULLISH'' ''UNKNOWN'' True example_row]"
  by (simp add: generate_predictions_for_watchlist_def Let_def example_status
      no_data_provider_def compute_market_regime_def actionable_of_def)

lemma quiet_fields:
  "prediction_action (predict_row no_data_provider StubNewsProvider ''v1.0'' now
      ''SCALP_1'' ''BULLISH'' ''UNKNOWN'' True example_row) = ''NO_TRADE''"
  "price_at_prediction (predict_row no_data_provider StubNewsProvider ''v1.0'' now
      ''SCALP_1'' ''BULLISH'' ''UNKNOWN'' True example_row) = None"
  "confidence_trend (predict_row no_data_provider StubNewsProvider ''v1.0'' now
      ''SCALP_1'' ''BULLISH'' ''UNKNOWN'' True example_row) = 0"
proof -
  have f: "instrument_features
             (case get_intraday_history no_data_provider (watchlist_row.data_symbol example_row)
                     ''1d'' ''5m'' of
                None \<Rightarrow> [] | Some df \<Rightarrow> df) = (None, ''SIDEWAYS'', ''UNKNOWN'', ''MEDIUM'')"
    by (simp add: no_data_provider_def instrument_features_def)
  have s: "simple_sentiment_from_headlines
             (get_headlines_for_symbol StubNewsProvider (watchlist_row.ticker example_row) 5)
           = (0, ''NEUTRAL'', ''No recent news found for this stock.'')"
    by (simp add: StubNewsProvider_def simple_sentiment_from_headlines_def)
  have r: "determine_news_risk
             (get_headlines_for_symbol StubNewsProvider (watchlist_row.ticker example_row) 5)
           = ''NONE''"
    by (simp add: StubNewsProvider_def determine_news_risk_def)
  note pf = predict_row_fields [OF f s r]
  show "prediction_action (predict_row no_data_provider StubNewsProvider ''v1.0'' now
      ''SCALP_1'' ''BULLISH'' ''UNKNOWN'' True example_row) = ''NO_TRADE''"
    by (simp add: pf score_row_fields prediction_action_of_def)
  show "price_at_prediction (predict_row no_data_provider StubNewsProvider ''v1.0'' now
      ''SCALP_1'' ''BULLISH'' ''UNKNOWN'' True example_row) = None"
    by (simp add: pf)
  show "confidence_trend (predict_row no_data_provider StubNewsProvider ''v1.0'' now
      ''SCALP_1'' ''BULLISH'' ''UNKNOWN'' True example_row) = 0"
    by (simp add: pf score_row_fields prediction_action_of_def trend_component_of_def py_round_0)
qed

lemma rising_features:
  "instrument_features rising_frame = (Some 119, ''UP'', ''NORMAL'', ''MEDIUM'')"
  unfolding instrument_features_def sort_index_def rising_frame_def
  by (simp add: determine_stock_trend_def iloc_last_def polyfit_slope_def Let_def upt_rec_numeral
     mean_def compute_intraday_volatility_label_def)

lemma breaking_risk:
  "determine_news_risk [\<lparr>title = Some ''Breaking: record profit'', description = None\<rparr>]
     = ''BREAKING''"
  by code_simp

lemma breaking_sentiment:
  "simple_sentiment_from_headlines
     [\<lparr>title = Some ''Breaking: record profit'', description = None\<rparr>]
     = (1, ''POSITIVE'', ''Breaking: record profit'')"
  by code_simp

lemma active_generate:
  "generate_predictions_for_watchlist [example_row] rising_provider breaking_news_provider ''v1.0''
     example_now =
   [predict_row rising_provider breaking_news_provider ''v1.0'' example_now
      ''SCALP_1'' ''BULLISH'' ''UNKNOWN'' True example_row]"
  by (simp add: generate_predictions_for_watchlist_def Let_def example_status
      rising_provider_def compute_market_regime_def actionable_of_def)

lemma active_score:
  "score_row True ''UNKNOWN'' ''BULLISH'' (Some 119) ''UP'' ''NORMAL'' ''MEDIUM'' ''POSITIVE''
     ''BREAKING''
    = \<lparr>action = ''LONG_BIAS'', trend_component = 1, volume_component = 0.7,
        sentiment_component = 1, volatility_component = 0.8, overall_confidence = 0.6,
        level_label = ''Medium''\<rparr>"
  by (simp add: score_row_def Let_def prediction_action_of_def trend_component_of_def
      volume_component_of_def sentiment_component_of_def volatility_component_of_def
      overall_confidence_of_def py_round_def round_half_even_def confidence_level_label_of_def)

lemma active_fields:
  "prediction_action (predict_row rising_provider breaking_news_provider ''v1.0'' now
      ''SCALP_1'' ''BULLISH'' ''UNKNOWN'' True example_row) = ''LONG_BIAS''"
  "news_risk_flag (predict_row rising_provider breaking_news_provider ''v1.0'' now
      ''SCALP_1'' ''BULLISH'' ''UNKNOWN'' True example_row) = ''BREAKING''"
  "confidence_trend (predict_row rising_provider breaking_news_provider ''v1.0'' now
      ''SCALP_1'' ''BULLISH'' ''UNKNOWN'' True example_row) = 1"
proof -
  have f: "instrument_features
             (case get_intraday_history rising_provider (watchlist_row.data_symbol example_row)
                     ''1d'' ''5m'' of
                None \<Rightarrow> [] | Some df \<Rightarrow> df) = (Some 119, ''UP'', ''NORMAL'', ''MEDIUM'')"
    by (simp add: rising_provider_def example_row_def NIFTY_SYMBOL_YF_def rising_features)
  have s: "simple_sentiment_from_headlines
             (get_headlines_for_symbol breaking_news_provider (watchlist_row.ticker example_row) 5)
           = (1, ''POSITIVE'', ''Breaking: record profit'')"
    by (simp add: breaking_news_provider_def breaking_sentiment)
  have r: "determine_news_risk
             (get_headlines_for_symbol breaking_news_provider (watchlist_row.ticker example_row) 5)
           = ''BREAKING''"
    by (simp add: breaking_news_provider_def breaking_risk)
  note pf = predict_row_fields [OF f s r]
  show "prediction_action (predict_row rising_provider breaking_news_provider ''v1.0'' now
      ''SCALP_1'' ''BULLISH'' ''UNKNOWN'' True example_row) = ''LONG_BIAS''"
    by (simp add: pf active_score)
  show "news_risk_flag (predict_row rising_provider breaking_news_provider ''v1.0'' now
      ''SCALP_1'' ''BULLISH'' ''UNKNOWN'' True example_row) = ''BREAKING''"
    by (simp add: pf)
  show "confidence_trend (predict_row rising_provider breaking_news_provider ''v1.0'' now
      ''SCALP_1'' ''BULLISH'' ''UNKNOWN'' True example_row) = 1"
    by (simp add: pf active_score py_round_1)
qed

section \<open>Claims about the confidence scoring\<close>

text \<open>
  C1: for every session phase, market regime, benchmark trend, price, instrument trend,
  volume signal, volatility label, sentiment label and news risk flag, the overall
  confidence score lies between 0 and 1; it is exactly 0.0 when the action is NO_TRADE;
  and it is at most 0.6 when the news risk flag is EVENT_RISK or BREAKING. The same holds
  for the \<open>confidence_score\<close> column of every row that
  \<open>generate_predictions_for_watchlist\<close> returns.
\<close>

theorem confidence_score_bounds:
  "0 \<le> overall_confidence (score_row (actionable_of phase regime) regime nt lp st vs vl sl risk)
   \<and> overall_confidence (score_row (actionable_of phase regime) regime nt lp st vs vl sl risk) \<le> 1
   \<and> (action (score_row (actionable_of phase regime) regime nt lp st vs vl sl risk) = ''NO_TRADE''
        \<longrightarrow> overall_confidence
              (score_row (actionable_of phase regime) regime nt lp st vs vl sl risk) = 0.0)
   \<and> (risk = ''EVENT_RISK'' \<or> risk = ''BREAKING''
        \<longrightarrow> overall_confidence
              (score_row (actionable_of phase regime) regime nt lp st vs vl sl risk) \<le> 0.6)
   \<and> (p \<in> set (generate_predictions_for_watchlist wl mdp np version now)
        \<longrightarrow> 0 \<le> confidence_score p \<and> confidence_score p \<le> 1
            \<and> (prediction_action p = ''NO_TRADE'' \<longrightarrow> confidence_score p = 0.0)
            \<and> (news_risk_flag p = ''EVENT_RISK'' \<or> news_risk_flag p = ''BREAKING''
                 \<longrightarrow> confidence_score p \<le> 0.6))"
proof -
  have rows: "0 \<le> confidence_score p \<and> confidence_score p \<le> 1
            \<and> (prediction_action p = ''NO_TRADE'' \<longrightarrow> confidence_score p = 0.0)
            \<and> (news_risk_flag p = ''EVENT_RISK'' \<or> news_risk_flag p = ''BREAKING''
                 \<longrightarrow> confidence_score p \<le> 0.6)"
    if "p \<in> set (generate_predictions_for_watchlist wl mdp np version now)"
  proof -
    from generated_prediction_scoring [OF that] obtain w where
      a: "prediction_action p =
            action (score_row (actionable_of (status_code p) (market_regime p)) (market_regime p)
              (nifty_trend p) (price_at_prediction p) (stock_short_trend p) (volume_signal p) w
              (sentiment_label p) (news_risk_flag p))"
      and c: "confidence_score p =
            overall_confidence (score_row (actionable_of (status_code p) (market_regime p))
              (market_regime p) (nifty_trend p) (price_at_prediction p) (stock_short_trend p)
              (volume_signal p) w (sentiment_label p) (news_risk_flag p))"
      unfolding Let_def by blast
    show ?thesis
      unfolding a c using score_row_bounds by auto
  qed
  show ?thesis
    using rows score_row_bounds [where act = "actionable_of phase regime" and mr = regime
        and nt = nt and lp = lp and st = st and vs = vs and vl = vl and sl = sl and risk = risk]
    by auto
qed

theorem confidence_score_bounds_witness:
  "action (score_row (actionable_of ''STUDY'' ''TREND_DAY'') ''TREND_DAY'' ''BULLISH'' (Some 100)
             ''UP'' ''HIGH'' ''HIGH'' ''POSITIVE'' ''NONE'') = ''NO_TRADE''
   \<and> overall_confidence (score_row (actionable_of ''STUDY'' ''TREND_DAY'') ''TREND_DAY''
             ''BULLISH'' (Some 100) ''UP'' ''HIGH'' ''HIGH'' ''POSITIVE'' ''NONE'') = 0
   \<and> overall_confidence (score_row (actionable_of ''SCALP_1'' ''TREND_DAY'') ''TREND_DAY''
             ''BULLISH'' (Some 100) ''UP'' ''HIGH'' ''HIGH'' ''POSITIVE'' ''BREAKING'') \<le> 0.6
   \<and> hd (generate_predictions_for_watchlist [example_row] rising_provider
             breaking_news_provider ''v1.0'' example_now)
        \<in> set (generate_predictions_for_watchlist [example_row] rising_provider
             breaking_news_provider ''v1.0'' example_now)
   \<and> news_risk_flag (hd (generate_predictions_for_watchlist [example_row] rising_provider
             breaking_news_provider ''v1.0'' example_now)) = ''BREAKING''
   \<and> prediction_action (hd (generate_predictions_for_watchlist [example_row] rising_provider
             breaking_news_provider ''v1.0'' example_now)) = ''LONG_BIAS''
   \<and> 0 \<le> confidence_score (hd (generate_predictions_for_watchlist [example_row] rising_provider
             breaking_news_provider ''v1.0'' example_now))
   \<and> confidence_score (hd (generate_predictions_for_watchlist [example_row] rising_provider
             breaking_news_provider ''v1.0'' example_now)) \<le> 0.6
   \<and> prediction_action (hd (generate_predictions_for_watchlist [example_row] no_data_provider
             StubNewsProvider ''v1.0'' example_now)) = ''NO_TRADE''
   \<and> confidence_score (hd (generate_predictions_for_watchlist [example_row] no_data_provider
             StubNewsProvider ''v1.0'' example_now)) = 0"
  using confidence_score_bounds [of "''STUDY''" "''TREND_DAY''" "''BULLISH''" "Some 100" "''UP''"
      "''HIGH''" "''HIGH''" "''POSITIVE''" "''NONE''"
      "hd (generate_predictions_for_watchlist [example_row] rising_provider
             breaking_news_provider ''v1.0'' example_now)"
      "[example_row]" rising_provider breaking_news_provider "''v1.0''" example_now]
    confidence_score_bounds [of "''SCALP_1''" "''TREND_DAY''" "''BULLISH''" "Some 100" "''UP''"
      "''HIGH''" "''HIGH''" "''POSITIVE''" "''BREAKING''"
      "hd (generate_predictions_for_watchlist [example_row] no_data_provider
             StubNewsProvider ''v1.0'' example_now)"
      "[example_row]" no_data_provider StubNewsProvider "''v1.0''" example_now]
  by (simp add: active_generate active_fields quiet_generate quiet_fields score_row_fields
      prediction_action_of_def actionable_of_def)

text \<open>
  C3: the action is NO_TRADE whenever the phase is neither SCALP_1 nor SCALP_2, or the phase
  is SCALP_2 and the regime is LOW_VOLATILITY, or the last price is unknown, whatever the
  other inputs are; and so it is in every generated row, read off the row's own
  \<open>status_code\<close>, \<open>market_regime\<close> and \<open>price_at_prediction\<close> columns.
\<close>

theorem no_trade_outside_windows:
  "((phase \<noteq> ''SCALP_1'' \<and> phase \<noteq> ''SCALP_2'')
      \<or> (phase = ''SCALP_2'' \<and> regime = ''LOW_VOLATILITY'') \<or> lp = None
     \<longrightarrow> action (score_row (actionable_of phase regime) regime nt lp st vs vl sl risk) = ''NO_TRADE'')
   \<and> (p \<in> set (generate_predictions_for_watchlist wl mdp np version now)
        \<and> ((status_code p \<noteq> ''SCALP_1'' \<and> status_code p \<noteq> ''SCALP_2'')
             \<or> (status_code p = ''SCALP_2'' \<and> market_regime p = ''LOW_VOLATILITY'')
             \<or> price_at_prediction p = None)
     \<longrightarrow> prediction_action p = ''NO_TRADE'')"
proof -
  have core: "action (score_row (actionable_of ph rg) rg n l t v w s r) = ''NO_TRADE''"
    if "(ph \<noteq> ''SCALP_1'' \<and> ph \<noteq> ''SCALP_2'') \<or> (ph = ''SCALP_2'' \<and> rg = ''LOW_VOLATILITY'') \<or> l = None"
    for ph rg n l t v w s r
    using that by (auto simp: score_row_fields prediction_action_of_def actionable_of_def)
  show ?thesis
  proof (intro conjI impI)
    assume "(phase \<noteq> ''SCALP_1'' \<and> phase \<noteq> ''SCALP_2'')
      \<or> (phase = ''SCALP_2'' \<and> regime = ''LOW_VOLATILITY'') \<or> lp = None"
    then show "action (score_row (actionable_of phase regime) regime nt lp st vs vl sl risk) = ''NO_TRADE''"
      by (rule core)
  next
    assume a: "p \<in> set (generate_predictions_for_watchlist wl mdp np version now)
        \<and> ((status_code p \<noteq> ''SCALP_1'' \<and> status_code p \<noteq> ''SCALP_2'')
             \<or> (status_code p = ''SCALP_2'' \<and> market_regime p = ''LOW_VOLATILITY'')
             \<or> price_at_prediction p = None)"
    then obtain w where "prediction_action p =
        action (score_row (actionable_of (status_code p) (market_regime p)) (market_regime p)
                (nifty_trend p) (price_at_prediction p) (stock_short_trend p)
                (volume_signal p) w (sentiment_label p) (news_risk_flag p))"
      using generated_prediction_scoring [of p wl mdp np version now] unfolding Let_def by blast
    with a core show "prediction_action p = ''NO_TRADE''"
      by simp
  qed
qed

theorem no_trade_outside_windows_witness:
  "action (score_row (actionable_of ''STUDY'' ''TREND_DAY'') ''TREND_DAY'' ''BULLISH'' (Some 100)
             ''UP'' ''HIGH'' ''HIGH'' ''POSITIVE'' ''NONE'') = ''NO_TRADE''
   \<and> action (score_row (actionable_of ''SCALP_2'' ''LOW_VOLATILITY'') ''LOW_VOLATILITY'' ''BULLISH''
             (Some 100) ''UP'' ''HIGH'' ''HIGH'' ''POSITIVE'' ''NONE'') = ''NO_TRADE''
   \<and> hd (generate_predictions_for_watchlist [example_row] no_data_provider StubNewsProvider
             ''v1.0'' example_now)
        \<in> set (generate_predictions_for_watchlist [example_row] no_data_provider StubNewsProvider
             ''v1.0'' example_now)
   \<and> price_at_prediction (hd (generate_predictions_for_watchlist [example_row] no_data_provider
             StubNewsProvider ''v1.0'' example_now)) = None
   \<and> prediction_action (hd (generate_predictions_for_watchlist [example_row] no_data_provider
             StubNewsProvider ''v1.0'' example_now)) = ''NO_TRADE''"
  using no_trade_outside_windows [of "''STUDY''" "''TREND_DAY''" "Some 100" "''BULLISH''" "''UP''"
      "''HIGH''" "''HIGH''" "''POSITIVE''" "''NONE''"
      "hd (generate_predictions_for_watchlist [example_row] no_data_provider StubNewsProvider
             ''v1.0'' example_now)"
      "[example_row]" no_data_provider StubNewsProvider "''v1.0''" example_now]
    no_trade_outside_windows [of "''SCALP_2''" "''LOW_VOLATILITY''" "Some 100" "''BULLISH''" "''UP''"
      "''HIGH''" "''HIGH''" "''POSITIVE''" "''NONE''"]
  by (simp add: quiet_generate quiet_fields(2))

text \<open>
  C8: with a bullish benchmark, an instrument trending up, neutral sentiment, high volume,
  high volatility, phase SCALP_1, regime TREND_DAY, no news risk and any known price, the
  action is LONG_BIAS, the four components are 1.0, 1.0, 0.7 and 1.0, the overall score is
  \<open>round(0.30 + 0.25 + 0.14 + 0.25, 2) = 0.94\<close> and the label is High.
\<close>

theorem end_to_end_long_bias:
  "score_row (actionable_of ''SCALP_1'' ''TREND_DAY'') ''TREND_DAY'' ''BULLISH'' (Some price) ''UP''
      ''HIGH'' ''HIGH'' ''NEUTRAL'' ''NONE''
     = \<lparr>action = ''LONG_BIAS'', trend_component = 1.0, volume_component = 1.0,
         sentiment_component = 0.7, volatility_component = 1.0, overall_confidence = 0.94,
         level_label = ''High''\<rparr>
   \<and> py_round (0.30 + 0.25 + 0.14 + 0.25) 2 = 0.94"
  by (simp add: score_row_def Let_def actionable_of_def prediction_action_of_def
      trend_component_of_def volume_component_of_def sentiment_component_of_def
      volatility_component_of_def overall_confidence_of_def py_round_def round_half_even_def
      confidence_level_label_of_def)

text \<open>
  C10: the trend component is 1.0 whenever the action is LONG_BIAS or SHORT_BIAS and 0.0
  whenever it is NO_TRADE, so it only takes the values 0.0 and 1.0 (the tiers 0.7 and 0.3 of
  the source are never reached); in every generated row the \<open>confidence_trend\<close> column
  is accordingly 1.0 or 0.0.
\<close>

theorem trend_component_two_valued:
  "(action (score_row actionable regime nt lp st vs vl sl risk) = ''LONG_BIAS''
      \<or> action (score_row actionable regime nt lp st vs vl sl risk) = ''SHORT_BIAS''
     \<longrightarrow> trend_component (score_row actionable regime nt lp st vs vl sl risk) = 1.0)
   \<and> (action (score_row actionable regime nt lp st vs vl sl risk) = ''NO_TRADE''
     \<longrightarrow> trend_component (score_row actionable regime nt lp st vs vl sl risk) = 0.0)
   \<and> (trend_component (score_row actionable regime nt lp st vs vl sl risk) = 0.0
        \<or> trend_component (score_row actionable regime nt lp st vs vl sl risk) = 1.0)
   \<and> (p \<in> set (generate_predictions_for_watchlist wl mdp np version now)
     \<longrightarrow> (prediction_action p = ''LONG_BIAS'' \<or> prediction_action p = ''SHORT_BIAS''
            \<longrightarrow> confidence_trend p = 1.0)
         \<and> (prediction_action p = ''NO_TRADE'' \<longrightarrow> confidence_trend p = 0.0)
         \<and> (confidence_trend p = 0.0 \<or> confidence_trend p = 1.0))"
proof -
  have rows: "(prediction_action p = ''LONG_BIAS'' \<or> prediction_action p = ''SHORT_BIAS''
            \<longrightarrow> confidence_trend p = 1.0)
         \<and> (prediction_action p = ''NO_TRADE'' \<longrightarrow> confidence_trend p = 0.0)
         \<and> (confidence_trend p = 0.0 \<or> confidence_trend p = 1.0)"
    if "p \<in> set (generate_predictions_for_watchlist wl mdp np version now)"
  proof -
    from generated_prediction_scoring [OF that] obtain w where
      a: "prediction_action p =
            action (score_row (actionable_of (status_code p) (market_regime p)) (market_regime p)
              (nifty_trend p) (price_at_prediction p) (stock_short_trend p) (volume_signal p) w
              (sentiment_label p) (news_risk_flag p))"
      and c: "confidence_trend p =
            py_round (trend_component (score_row (actionable_of (status_code p) (market_regime p))
              (market_regime p) (nifty_trend p) (price_at_prediction p) (stock_short_trend p)
              (volume_signal p) w (sentiment_label p) (news_risk_flag p))) 2"
      unfolding Let_def by blast
    show ?thesis
      unfolding a c
      using score_row_trend [of "actionable_of (status_code p) (market_regime p)"
          "market_regime p" "nifty_trend p" "price_at_prediction p" "stock_short_trend p"
          "volume_signal p" w "sentiment_label p" "news_risk_flag p"]
      by (auto simp: py_round_0 py_round_1)
  qed
  show ?thesis
    using rows score_row_trend [of actionable regime nt lp st vs vl sl risk]
    by auto
qed

theorem trend_component_two_valued_witness:
  "action (score_row True ''TREND_DAY'' ''BEARISH'' (Some 100) ''DOWN'' ''LOW'' ''LOW''
             ''NEGATIVE'' ''NONE'') = ''SHORT_BIAS''
   \<and> trend_component (score_row True ''TREND_DAY'' ''BEARISH'' (Some 100) ''DOWN'' ''LOW'' ''LOW''
             ''NEGATIVE'' ''NONE'') = 1
   \<and> action (score_row True ''TREND_DAY'' ''NEUTRAL'' (Some 100) ''UP'' ''LOW'' ''LOW''
             ''POSITIVE'' ''NONE'') = ''NO_TRADE''
   \<and> trend_component (score_row True ''TREND_DAY'' ''NEUTRAL'' (Some 100) ''UP'' ''LOW'' ''LOW''
             ''POSITIVE'' ''NONE'') = 0
   \<and> hd (generate_predictions_for_watchlist [example_row] rising_provider
             breaking_news_provider ''v1.0'' example_now)
        \<in> set (generate_predictions_for_watchlist [example_row] rising_provider
             breaking_news_provider ''v1.0'' example_now)
   \<and> prediction_action (hd (generate_predictions_for_watchlist [example_row] rising_provider
             breaking_news_provider ''v1.0'' example_now)) = ''LONG_BIAS''
   \<and> confidence_trend (hd (generate_predictions_for_watchlist [example_row] rising_provider
             breaking_news_provider ''v1.0'' example_now)) = 1"
  using trend_component_two_valued [of True "''TREND_DAY''" "''BEARISH''" "Some 100" "''DOWN''"
      "''LOW''" "''LOW''" "''NEGATIVE''" "''NONE''"
      "hd (generate_predictions_for_watchlist [example_row] rising_provider
             breaking_news_provider ''v1.0'' example_now)"
      "[example_row]" rising_provider breaking_news_provider "''v1.0''" example_now]
    trend_component_two_valued [of True "''TREND_DAY''" "''NEUTRAL''" "Some 100" "''UP''"
      "''LOW''" "''LOW''" "''POSITIVE''" "''NONE''"]
  by (simp add: active_generate active_fields score_row_fields prediction_action_of_def)

section \<open>Claims about the sentiment classifier\<close>

text \<open>
  C9, as stated: for the empty headline list the sentiment classifier returns score 0.0,
  label NEUTRAL and the summary text "no headlines found". The source returns another text,
  so the triple of the claim is not what the classifier returns.
\<close>

theorem empty_headlines_summary_counterexample:
  "simple_sentiment_from_headlines [] \<noteq> (0.0, ''NEUTRAL'', ''no headlines found'')"
  by (simp add: simple_sentiment_from_headlines_def)

text \<open>
  C9, amended: for the empty headline list the sentiment classifier returns score 0.0, label
  NEUTRAL and the fixed summary text "No recent news found for this stock.", and the risk
  classifier returns NONE.
\<close>

theorem empty_headlines_defaults:
  "simple_sentiment_from_headlines [] = (0.0, ''NEUTRAL'', ''No recent news found for this stock.'')
   \<and> determine_news_risk [] = ''NONE''"
  by (simp add: simple_sentiment_from_headlines_def determine_news_risk_def)

section \<open>Properties of the regime classifier\<close>





















lemma short_regime: "compute_market_regime (take 29 zigzag_frame) = ''UNKNOWN''"
  unfolding compute_market_regime_def zigzag_frame_def
  by simp



section \<open>Properties of the journal\<close>

lemma same_key_iff: "same_key x row = (prediction_key x = prediction_key row)"
  by (auto simp: same_key_def prediction_key_def)















lemma drop_duplicates_subset: "set (drop_duplicates_keep_last rows) \<subseteq> set rows"
  by (induction rows) auto

lemma drop_duplicates_is_distinct: "distinct (map prediction_key (drop_duplicates_keep_last rows))"
proof (induction rows)
  case Nil
  then show ?case by simp
next
  case (Cons x rows)
  show ?case
  proof (cases "list_ex (same_key x) rows")
    case True
    with Cons show ?thesis by simp
  next
    case False
    then have "prediction_key x \<notin> prediction_key ` set rows"
      by (auto simp: list_ex_iff same_key_iff)
    with drop_duplicates_subset [of rows]
    have "prediction_key x \<notin> prediction_key ` set (drop_duplicates_keep_last rows)"
      by blast
    with False Cons show ?thesis by simp
  qed
qed


lemma upsert_predictions_one_row_per_key:
  "B \<noteq> [] \<Longrightarrow> distinct (map prediction_key (upsert_predictions J B))"
  by (simp add: upsert_predictions_def drop_duplicates_is_distinct)













section \<open>The example batches\<close>


lemma predict_row_news_risk:
  "news_risk_flag (predict_row mdp np version now phase nt regime act row) =
     determine_news_risk (get_headlines_for_symbol np (watchlist_row.ticker row) 5)"
  unfolding predict_row_def Let_def by (simp split: prod.splits)












section \<open>Claims about the journal\<close>







section \<open>Claims about the regime of a time bucket\<close>







end
